theory Spec2Isabelle
  imports Main
begin

section \<open>Strings\<close>

text \<open>
  A JavaScript string is a sequence of UTF-16 code units. The model uses \<open>string\<close>
  (a list of 8-bit characters) and reads a character as the code unit with the same number,
  so it covers the strings whose code units are below 256 (ASCII and Latin-1).
\<close>

definition toLowerCase_char :: "char \<Rightarrow> char" where
  "toLowerCase_char c =
     (let n = (of_char c :: nat)
      in if (65 \<le> n \<and> n \<le> 90) \<or> (192 \<le> n \<and> n \<le> 222 \<and> n \<noteq> 215)
         then char_of (n + 32) else c)"

definition toLowerCase :: "string \<Rightarrow> string" where
  "toLowerCase s = map toLowerCase_char s"

fun startsWith :: "string \<Rightarrow> string \<Rightarrow> bool" where
  "startsWith s [] = True"
| "startsWith [] (k # ks) = False"
| "startsWith (c # cs) (k # ks) = (c = k \<and> startsWith cs ks)"

fun includes_str :: "string \<Rightarrow> string \<Rightarrow> bool" where
  "includes_str [] k = (k = [])"
| "includes_str (c # cs) k = (startsWith (c # cs) k \<or> includes_str cs k)"

text \<open>
  \<open>encodeURIComponent\<close>: a code unit outside the unreserved set is replaced by the
  percent-escaped bytes of its UTF-8 encoding (one byte below 128, two bytes up to 255).
\<close>

definition hex_digit :: "nat \<Rightarrow> char" where
  "hex_digit n = (if n < 10 then char_of (48 + n) else char_of (55 + n))"

definition percent :: "nat \<Rightarrow> string" where
  "percent b = [CHR ''%'', hex_digit (b div 16), hex_digit (b mod 16)]"

definition unreserved :: "char \<Rightarrow> bool" where
  "unreserved c =
     (let n = (of_char c :: nat)
      in (65 \<le> n \<and> n \<le> 90) \<or> (97 \<le> n \<and> n \<le> 122) \<or> (48 \<le> n \<and> n \<le> 57) \<or>
         c \<in> set ''-_.!~*'()'')"

definition encode_unit :: "char \<Rightarrow> string" where
  "encode_unit c =
     (let n = (of_char c :: nat)
      in if unreserved c then [c]
         else if n < 128 then percent n
         else percent (192 + n div 64) @ percent (128 + n mod 64))"

definition encodeURIComponent :: "string \<Rightarrow> string" where
  "encodeURIComponent s = concat (map encode_unit s)"

section \<open>JavaScript values\<close>

text \<open>
  The values that \<open>JSON.parse\<close> produces, together with \<open>undefined\<close> and the one
  built-in method the program can read off a primitive (\<open>String.prototype.search\<close>, carried
  with its \<open>length\<close>). Numbers are the integers that a double holds exactly and whose
  decimal rendering JavaScript prints in full (magnitude below \<open>10^21\<close>); \<open>JNum\<close> is not
  meant for any other integer. An object is the list of its own properties, each key once.
\<close>

datatype js =
    JUndefined
  | JNull
  | JBool bool
  | JNum int
  | JStr string
  | JArr "js list"
  | JObj "(string \<times> js) list"
  | JFunction nat

text \<open>The exceptions the program can meet; every one is caught by a \<open>try\<close> of the source.\<close>

datatype exn =
    TypeError
  | SyntaxError
  | RangeError
  | FetchFailed
  | Error string

definition bindE :: "exn + 'a \<Rightarrow> ('a \<Rightarrow> exn + 'b) \<Rightarrow> exn + 'b" where
  "bindE m f = (case m of Inl e \<Rightarrow> Inl e | Inr v \<Rightarrow> f v)"

fun truthy :: "js \<Rightarrow> bool" where
  "truthy JUndefined = False"
| "truthy JNull = False"
| "truthy (JBool b) = b"
| "truthy (JNum n) = (n \<noteq> 0)"
| "truthy (JStr s) = (s \<noteq> [])"
| "truthy (JArr xs) = True"
| "truthy (JObj kvs) = True"
| "truthy (JFunction n) = True"

fun nullish :: "js \<Rightarrow> bool" where
  "nullish JUndefined = True"
| "nullish JNull = True"
| "nullish v = False"

fun show_nat :: "nat \<Rightarrow> string" where
  "show_nat n = (if n < 10 then [char_of (48 + n)] else show_nat (n div 10) @ [char_of (48 + n mod 10)])"

declare show_nat.simps [simp del]

definition show_int :: "int \<Rightarrow> string" where
  "show_int i = (if i < 0 then CHR ''-'' # show_nat (nat (- i)) else show_nat (nat i))"

datatype key = Name string | Index nat

text \<open>
  Reading a property, \<open>v.name\<close> or \<open>v[i]\<close>. It throws on \<open>undefined\<close> and \<open>null\<close>.
  The names are those the program reads: none of them is inherited from a prototype
  except \<open>search\<close> on a string and \<open>length\<close>.
\<close>

fun get_prop :: "js \<Rightarrow> key \<Rightarrow> exn + js" where
  "get_prop JUndefined k = Inl TypeError"
| "get_prop JNull k = Inl TypeError"
| "get_prop (JObj kvs) (Name p) = Inr (case map_of kvs p of None \<Rightarrow> JUndefined | Some v \<Rightarrow> v)"
| "get_prop (JObj kvs) (Index i) =
     Inr (case map_of kvs (show_nat i) of None \<Rightarrow> JUndefined | Some v \<Rightarrow> v)"
| "get_prop (JArr xs) (Name p) =
     Inr (if p = ''length'' then JNum (int (length xs)) else JUndefined)"
| "get_prop (JArr xs) (Index i) = Inr (if i < length xs then xs ! i else JUndefined)"
| "get_prop (JStr s) (Name p) =
     Inr (if p = ''length'' then JNum (int (length s))
          else if p = ''search'' then JFunction 1 else JUndefined)"
| "get_prop (JStr s) (Index i) = Inr (if i < length s then JStr [s ! i] else JUndefined)"
| "get_prop (JFunction n) (Name p) = Inr (if p = ''length'' then JNum (int n) else JUndefined)"
| "get_prop (JFunction n) (Index i) = Inr JUndefined"
| "get_prop (JBool b) k = Inr JUndefined"
| "get_prop (JNum n) k = Inr JUndefined"

text \<open>Optional chaining, \<open>v?.name\<close> and \<open>v?.[i]\<close>: \<open>undefined\<close> when \<open>v\<close> is nullish.\<close>

definition get_opt :: "js \<Rightarrow> key \<Rightarrow> js" where
  "get_opt v k = (case get_prop v k of Inl e \<Rightarrow> JUndefined | Inr x \<Rightarrow> x)"

text \<open>\<open>a || b\<close> on values.\<close>

definition or_else :: "js \<Rightarrow> js \<Rightarrow> js" where
  "or_else a b = (if truthy a then a else b)"

fun intercalate :: "string \<Rightarrow> string list \<Rightarrow> string" where
  "intercalate sep [] = []"
| "intercalate sep [x] = x"
| "intercalate sep (x # y # ys) = x @ sep @ intercalate sep (y # ys)"

fun sequenceE :: "(exn + 'a) list \<Rightarrow> exn + 'a list" where
  "sequenceE [] = Inr []"
| "sequenceE (m # ms) =
     (case m of Inl e \<Rightarrow> Inl e
      | Inr v \<Rightarrow> (case sequenceE ms of Inl e \<Rightarrow> Inl e | Inr vs \<Rightarrow> Inr (v # vs)))"

text \<open>
  The conversion to a string that a template literal and \<open>new Error(v)\<close> apply. An array
  joins its elements with commas, \<open>null\<close> and \<open>undefined\<close> elements rendering empty; a plain
  object renders as \<open>[object Object]\<close>, and the conversion throws when the object has an
  own property \<open>toString\<close> (a parsed value is never callable).
\<close>

fun js_toString :: "js \<Rightarrow> exn + string" where
  "js_toString JUndefined = Inr ''undefined''"
| "js_toString JNull = Inr ''null''"
| "js_toString (JBool b) = Inr (if b then ''true'' else ''false'')"
| "js_toString (JNum n) = Inr (show_int n)"
| "js_toString (JStr s) = Inr s"
| "js_toString (JArr xs) =
     (case sequenceE (map (\<lambda>x. if nullish x then Inr [] else js_toString x) xs) of
        Inl e \<Rightarrow> Inl e
      | Inr ss \<Rightarrow> Inr (intercalate '','' ss))"
| "js_toString (JObj kvs) =
     (if map_of kvs ''toString'' = None then Inr ''[object Object]'' else Inl TypeError)"
| "js_toString (JFunction n) = Inr ''function search() { [native code] }''"

section \<open>Requests, responses and effects\<close>

record request =
  req_url :: string
  req_method :: string
  req_headers :: "(string \<times> string) list"
  req_body :: "js option"

text \<open>
  A body is unreadable (reading it rejects), text that is not JSON, or the value its text
  parses to.
\<close>

datatype body = Unreadable | Text string | Json js

record response =
  status :: nat
  resp_body :: body

definition response_ok :: "response \<Rightarrow> bool" where
  "response_ok r = (200 \<le> status r \<and> status r \<le> 299)"

definition body_json :: "body \<Rightarrow> exn + js" where
  "body_json b = (case b of Unreadable \<Rightarrow> Inl FetchFailed | Text t \<Rightarrow> Inl SyntaxError | Json v \<Rightarrow> Inr v)"

definition body_text :: "body \<Rightarrow> exn + body" where
  "body_text b = (case b of Unreadable \<Rightarrow> Inl FetchFailed | _ \<Rightarrow> Inr b)"

text \<open>What a reader parses back from \<open>JSON.stringify v\<close>.\<close>

fun unserialisable :: "js \<Rightarrow> bool" where
  "unserialisable JUndefined = True"
| "unserialisable (JFunction n) = True"
| "unserialisable v = False"

fun reparse :: "js \<Rightarrow> js" where
  "reparse (JArr xs) = JArr (map (\<lambda>x. if unserialisable x then JNull else reparse x) xs)"
| "reparse (JObj kvs) =
     JObj (map (\<lambda>kv. (fst kv, reparse (snd kv))) (filter (\<lambda>kv. \<not> unserialisable (snd kv)) kvs))"
| "reparse v = v"

text \<open>
  \<open>NextResponse.json(v, {status})\<close>. The platform's response constructor refuses a status
  outside 200..599, and a body on a status that admits none (204, 205, 304).
\<close>

definition NextResponse_json :: "js \<Rightarrow> nat \<Rightarrow> exn + response" where
  "NextResponse_json v st =
     (if st < 200 \<or> 599 < st then Inl RangeError
      else if st = 204 \<or> st = 205 \<or> st = 304 then Inl TypeError
      else Inr \<lparr>status = st, resp_body = Json (reparse v)\<rparr>)"

record server_env =
  NEXT_PUBLIC_BASE_URL :: "string option"
  OPENROUTER_API_KEY :: "string option"
  fetch :: "request \<Rightarrow> exn + response"

text \<open>
  A computation threads a state and ends in a value or an exception; what it did to the
  state before an exception stays done. On the server the state is the list of outgoing
  calls made so far.
\<close>

type_synonym ('a, 's) eff = "'s \<Rightarrow> (exn + 'a) \<times> 's"

type_synonym 'a io = "('a, request list) eff"

definition io_return :: "'a \<Rightarrow> ('a, 's) eff" where
  "io_return v = (\<lambda>tr. (Inr v, tr))"

definition io_lift :: "exn + 'a \<Rightarrow> ('a, 's) eff" where
  "io_lift m = (\<lambda>tr. (m, tr))"

definition io_bind :: "('a, 's) eff \<Rightarrow> ('a \<Rightarrow> ('b, 's) eff) \<Rightarrow> ('b, 's) eff" where
  "io_bind m f = (\<lambda>tr. case m tr of (Inl e, tr') \<Rightarrow> (Inl e, tr') | (Inr v, tr') \<Rightarrow> f v tr')"

definition io_catch :: "('a, 's) eff \<Rightarrow> (exn \<Rightarrow> ('a, 's) eff) \<Rightarrow> ('a, 's) eff" where
  "io_catch m h = (\<lambda>tr. case m tr of (Inl e, tr') \<Rightarrow> h e tr' | (Inr v, tr') \<Rightarrow> (Inr v, tr'))"

text \<open>\<open>try { m } finally { f }\<close>: the update \<open>f\<close> runs whether or not \<open>m\<close> threw.\<close>

definition io_finally :: "('a, 's) eff \<Rightarrow> ('s \<Rightarrow> 's) \<Rightarrow> ('a, 's) eff" where
  "io_finally m f = (\<lambda>tr. case m tr of (r, tr') \<Rightarrow> (r, f tr'))"

text \<open>A state update that cannot throw.\<close>

definition io_do :: "('s \<Rightarrow> 's) \<Rightarrow> (unit, 's) eff" where
  "io_do f = (\<lambda>tr. (Inr (), f tr))"

definition io_fetch :: "server_env \<Rightarrow> request \<Rightarrow> response io" where
  "io_fetch env rq = (\<lambda>tr. (fetch env rq, tr @ [rq]))"

section \<open>The completion endpoint\<close>

definition searchWikipedia_request :: "server_env \<Rightarrow> js \<Rightarrow> request" where
  "searchWikipedia_request env query =
     \<lparr>req_url =
        (case NEXT_PUBLIC_BASE_URL env of
           None \<Rightarrow> ''http://localhost:3000''
         | Some b \<Rightarrow> if b = [] then ''http://localhost:3000'' else b) @ ''/api/search-wikipedia'',
      req_method = ''POST'',
      req_headers = [(''Content-Type'', ''application/json'')],
      req_body = Some (JObj [(''query'', query)])\<rparr>"

definition searchWikipedia :: "server_env \<Rightarrow> js \<Rightarrow> js io" where
  "searchWikipedia env query =
     io_catch
       (io_bind (io_fetch env (searchWikipedia_request env query)) (\<lambda>response.
        io_bind (io_lift (body_json (resp_body response))) (\<lambda>data.
        io_bind (io_lift (get_prop data (Name ''results''))) (\<lambda>results.
        io_return (or_else (get_opt results (Index 0)) JNull)))))
       (\<lambda>error. io_return JNull)"

definition searchKeywords :: "string list" where
  "searchKeywords =
     [''what is'', ''who is'', ''when did'', ''where is'', ''how does'',
      ''tell me about'', ''information about'', ''explain'', ''define'',
      ''describe'', ''history of'', ''facts about'', ''details about'']"

text \<open>
  \<open>needsSearch\<close> is typed for a string; called with any other value,
  \<open>message.toLowerCase\<close> is not a function and the call throws.
\<close>

fun needsSearch :: "js \<Rightarrow> exn + bool" where
  "needsSearch (JStr message) =
     Inr (list_ex (\<lambda>keyword. includes_str (toLowerCase message) keyword) searchKeywords)"
| "needsSearch v = Inl TypeError"

definition basePrompt :: string where
  "basePrompt = ''You are a helpful AI assistant. Answer the user's question clearly and concisely.''"

definition wikipediaBlock :: "string \<Rightarrow> string \<Rightarrow> string \<Rightarrow> string" where
  "wikipediaBlock title summary url =
     ''\<newline>\<newline>Here is relevant information from Wikipedia:\<newline>Title: '' @ title @
     ''\<newline>Summary: '' @ summary @
     ''\<newline>Source: '' @ url @
     ''\<newline>\<newline>Use this information to help answer the user's question. Be sure to mention that the information comes from Wikipedia when relevant.''"

definition augmentPrompt :: "string \<Rightarrow> js \<Rightarrow> exn + string" where
  "augmentPrompt systemPrompt searchResult =
     bindE (get_prop searchResult (Name ''title'')) (\<lambda>t.
     bindE (js_toString t) (\<lambda>title.
     bindE (get_prop searchResult (Name ''summary'')) (\<lambda>s.
     bindE (js_toString s) (\<lambda>summary.
     bindE (get_prop searchResult (Name ''url'')) (\<lambda>u.
     bindE (js_toString u) (\<lambda>url.
     Inr (systemPrompt @ wikipediaBlock title summary url)))))))"

definition textContent :: "js \<Rightarrow> js" where
  "textContent t = JArr [JObj [(''type'', JStr ''text''), (''text'', t)]]"

definition completionPayload :: "string \<Rightarrow> js \<Rightarrow> js" where
  "completionPayload systemPrompt message =
     JObj [(''model'', JStr ''anthropic/claude-sonnet-4''),
           (''messages'',
            JArr [JObj [(''role'', JStr ''system''), (''content'', textContent (JStr systemPrompt))],
                  JObj [(''role'', JStr ''user''), (''content'', textContent message)]])]"

definition completion_url :: string where
  "completion_url = ''https://openrouter.ai/api/v1/chat/completions''"

definition completion_request :: "server_env \<Rightarrow> js \<Rightarrow> request" where
  "completion_request env payload =
     \<lparr>req_url = completion_url,
      req_method = ''POST'',
      req_headers =
        [(''Content-Type'', ''application/json''),
         (''Authorization'',
          ''Bearer '' @ (case OPENROUTER_API_KEY env of None \<Rightarrow> ''undefined'' | Some k \<Rightarrow> k))],
      req_body = Some payload\<rparr>"

definition buildSystemPrompt :: "server_env \<Rightarrow> js \<Rightarrow> string io" where
  "buildSystemPrompt env message =
     io_bind (io_lift (needsSearch message)) (\<lambda>needed.
       if needed then
         io_bind (searchWikipedia env message) (\<lambda>searchResult.
           if truthy searchResult then io_lift (augmentPrompt basePrompt searchResult)
           else io_return basePrompt)
       else io_return basePrompt)"

definition voice_chat_body :: "server_env \<Rightarrow> body \<Rightarrow> response io" where
  "voice_chat_body env req =
     io_bind (io_lift (body_json req)) (\<lambda>parsed.
     io_bind (io_lift (get_prop parsed (Name ''message''))) (\<lambda>message.
       if \<not> truthy message then
         io_lift (NextResponse_json (JObj [(''error'', JStr ''Message missing'')]) 400)
       else
         io_bind (buildSystemPrompt env message) (\<lambda>systemPrompt.
         io_bind (io_fetch env (completion_request env (completionPayload systemPrompt message)))
           (\<lambda>response.
             if \<not> response_ok response then
               io_bind (io_lift (body_text (resp_body response))) (\<lambda>err.
                 io_lift (NextResponse_json (JObj [(''error'', JStr ''Failed to get AI response'')])
                              (status response)))
             else
               io_bind (io_lift (body_json (resp_body response))) (\<lambda>data.
                 io_lift (NextResponse_json data 200))))))"

text \<open>
  The handler: the result of the \<open>try\<close> block, or the 500 response of its \<open>catch\<close>,
  paired with the outgoing calls it made, in order.
\<close>

definition POST_voice_chat :: "server_env \<Rightarrow> body \<Rightarrow> (exn + response) \<times> request list" where
  "POST_voice_chat env req =
     io_catch (voice_chat_body env req)
       (\<lambda>error. io_lift (NextResponse_json (JObj [(''error'', JStr ''Server error'')]) 500)) []"

text \<open>
  What the handler makes of the completion API's response (the last lines of its
  \<open>try\<close> block), as a function of that response.
\<close>

definition relay :: "response \<Rightarrow> exn + response" where
  "relay response =
     (if \<not> response_ok response then
        (case body_text (resp_body response) of
           Inl e \<Rightarrow> Inl e
         | Inr err \<Rightarrow> NextResponse_json (JObj [(''error'', JStr ''Failed to get AI response'')]) (status response))
      else
        (case body_json (resp_body response) of
           Inl e \<Rightarrow> Inl e
         | Inr data \<Rightarrow> NextResponse_json data 200))"

section \<open>The lookup endpoint\<close>

definition get_request :: "string \<Rightarrow> request" where
  "get_request u = \<lparr>req_url = u, req_method = ''GET'', req_headers = [], req_body = None\<rparr>"

definition searchUrl :: "string \<Rightarrow> string" where
  "searchUrl query =
     ''https://en.wikipedia.org/w/api.php?action=query&list=search&srsearch='' @
     encodeURIComponent query @ ''&format=json&origin=*''"

definition summaryUrl :: "string \<Rightarrow> string" where
  "summaryUrl title =
     ''https://en.wikipedia.org/api/rest_v1/page/summary/'' @ encodeURIComponent title"

definition wikiUrl :: "string \<Rightarrow> string" where
  "wikiUrl title = ''https://en.wikipedia.org/wiki/'' @ encodeURIComponent title"

definition search_body :: "server_env \<Rightarrow> body \<Rightarrow> response io" where
  "search_body env req =
     io_bind (io_lift (body_json req)) (\<lambda>parsed.
     io_bind (io_lift (get_prop parsed (Name ''query''))) (\<lambda>query.
       if \<not> truthy query then
         io_lift (NextResponse_json (JObj [(''error'', JStr ''Query missing'')]) 400)
       else
         io_bind (io_lift (js_toString query)) (\<lambda>queryText.
         io_bind (io_fetch env (get_request (searchUrl queryText))) (\<lambda>searchResponse.
         io_bind (io_lift (body_json (resp_body searchResponse))) (\<lambda>searchData.
         io_bind (io_lift (get_prop searchData (Name ''query''))) (\<lambda>q.
           if \<not> truthy (get_opt (get_opt q (Name ''search'')) (Name ''length'')) then
             io_lift (NextResponse_json (JObj [(''results'', JArr [])]) 200)
           else
             io_bind (io_lift (get_prop (get_opt q (Name ''search'')) (Index 0))) (\<lambda>firstResult.
             io_bind (io_lift (get_prop firstResult (Name ''title''))) (\<lambda>firstTitle.
             io_bind (io_lift (js_toString firstTitle)) (\<lambda>titleText.
             io_bind (io_fetch env (get_request (summaryUrl titleText))) (\<lambda>summaryResponse.
             io_bind (io_lift (body_json (resp_body summaryResponse))) (\<lambda>summaryData.
             io_bind (io_lift (get_prop summaryData (Name ''title''))) (\<lambda>title.
             io_bind (io_lift (get_prop summaryData (Name ''extract''))) (\<lambda>extract.
             io_bind (io_lift (get_prop summaryData (Name ''content_urls''))) (\<lambda>content_urls.
               io_lift
                 (NextResponse_json
                    (JObj [(''results'',
                            JArr [JObj [(''title'', title),
                                        (''summary'', extract),
                                        (''url'',
                                         or_else
                                           (get_opt (get_opt content_urls (Name ''desktop'')) (Name ''page''))
                                           (JStr (wikiUrl titleText)))]])])
                    200)))))))))))))))"

definition POST_search :: "server_env \<Rightarrow> body \<Rightarrow> (exn + response) \<times> request list" where
  "POST_search env req =
     io_catch (search_body env req)
       (\<lambda>error. io_lift (NextResponse_json (JObj [(''error'', JStr ''Search error'')]) 500)) []"

text \<open>
  The deployment: both endpoints run in one application, so the completion endpoint's call
  to \<open>/api/search-wikipedia\<close> is served by the lookup endpoint, and every other call goes
  out to the world.
\<close>

definition served_by_lookup :: "server_env \<Rightarrow> request \<Rightarrow> exn + response" where
  "served_by_lookup env rq =
     fst (POST_search env (case req_body rq of None \<Rightarrow> Text [] | Some v \<Rightarrow> Json (reparse v)))"

definition deployed :: "server_env \<Rightarrow> server_env" where
  "deployed env =
     env\<lparr>fetch :=
       (\<lambda>rq. if req_url rq = req_url (searchWikipedia_request env JNull)
             then served_by_lookup env rq else fetch env rq)\<rparr>"

text \<open>
  A call fails when it rejects or when its body cannot be read as JSON.
\<close>

definition call_fails :: "server_env \<Rightarrow> request \<Rightarrow> bool" where
  "call_fails env rq =
     (case fetch env rq of
        Inl e \<Rightarrow> True
      | Inr r \<Rightarrow> (case body_json (resp_body r) of Inl e \<Rightarrow> True | Inr v \<Rightarrow> False))"

text \<open>
  What \<open>searchWikipedia\<close> makes of the outcome of its call: the first entry of
  \<open>results\<close>, or \<open>null\<close>.
\<close>

definition entry_of :: "exn + response \<Rightarrow> js" where
  "entry_of out =
     (case out of
        Inl e \<Rightarrow> JNull
      | Inr res \<Rightarrow>
          (case body_json (resp_body res) of
             Inl e \<Rightarrow> JNull
           | Inr data \<Rightarrow> or_else (get_opt (get_opt data (Name ''results'')) (Index 0)) JNull))"

section \<open>Example worlds\<close>

text \<open>
  A world answers the calls that leave the application: the Wikipedia search API, the
  Wikipedia summary API and the completion API, each with a fixed outcome.
\<close>

definition world :: "(exn + response) \<Rightarrow> (exn + response) \<Rightarrow> (exn + response) \<Rightarrow> server_env" where
  "world search summary completion =
     \<lparr>NEXT_PUBLIC_BASE_URL = None,
      OPENROUTER_API_KEY = Some ''sk-test'',
      fetch = (\<lambda>rq.
        if startsWith (req_url rq) ''https://en.wikipedia.org/w/api.php'' then search
        else if startsWith (req_url rq) ''https://en.wikipedia.org/api/rest_v1/page/summary/'' then summary
        else completion)\<rparr>"

definition search_hit :: "exn + response" where
  "search_hit =
     Inr \<lparr>status = 200,
          resp_body = Json (JObj [(''query'', JObj [(''search'', JArr [JObj [(''title'', JStr ''Photosynthesis'')]])])])\<rparr>"

definition search_empty :: "exn + response" where
  "search_empty =
     Inr \<lparr>status = 200, resp_body = Json (JObj [(''query'', JObj [(''search'', JArr [])])])\<rparr>"

definition summary_found :: "exn + response" where
  "summary_found =
     Inr \<lparr>status = 200,
          resp_body = Json (JObj [(''title'', JStr ''Photosynthesis''),
                                  (''extract'', JStr ''Photosynthesis converts light into chemical energy.'')])\<rparr>"

definition summary_not_found :: "exn + response" where
  "summary_not_found =
     Inr \<lparr>status = 404,
          resp_body = Json (JObj [(''title'', JStr ''Not found.''), (''detail'', JStr ''Page or revision not found.'')])\<rparr>"

definition completion_reply :: "exn + response" where
  "completion_reply =
     Inr \<lparr>status = 200,
          resp_body = Json (JObj [(''choices'',
                        JArr [JObj [(''message'', JObj [(''content'', JStr ''It is a process.'')])]])])\<rparr>"

definition completion_unavailable :: "string \<Rightarrow> exn + response" where
  "completion_unavailable t = Inr \<lparr>status = 503, resp_body = Text t\<rparr>"

definition message_body :: "string \<Rightarrow> body" where
  "message_body m = Json (JObj [(''message'', JStr m)])"

text \<open>
  Two answers of the completion endpoint, as the controller receives them: one for a
  question that is looked up and answered, one when the completion API is unavailable.
\<close>

definition answered :: "exn + response" where
  "answered =
     fst (POST_voice_chat (deployed (world search_hit summary_found completion_reply))
            (message_body ''What is photosynthesis?''))"

definition unavailable :: "exn + response" where
  "unavailable =
     fst (POST_voice_chat (world search_hit summary_found (completion_unavailable ''overloaded''))
            (message_body ''hello''))"

section \<open>The turn controller\<close>

datatype role = User | Assistant

record message =
  msg_role :: role
  msg_text :: js
  msg_timestamp :: nat

text \<open>What the component does that an observer can see, in the order it does it.\<close>

datatype event =
    Append message
  | ClearMessages
  | SetError string
  | SetIsListening bool
  | SetIsProcessing bool
  | SetIsSearching bool
  | SetIsSpeaking bool
  | SynthCancel
  | SynthSpeak string
  | RecognitionStart nat
  | RecognitionStop nat
  | FetchVoiceChat string

text \<open>
  The component's state, the recognition handle it holds, and the part of the platform it
  reads: whether the synthesiser reports \<open>speaking\<close>, and how many recognition objects
  have been created (the next handle).
\<close>

record controller =
  messages :: "message list"
  isListening :: bool
  isProcessing :: bool
  isSearching :: bool
  error :: string
  isSpeaking :: bool
  recognitionRef :: "nat option"
  synth_speaking :: bool
  recognitions :: nat
  log :: "event list"

text \<open>
  The browser: whether \<open>window\<close> has a speech recognition constructor, whether it has
  \<open>speechSynthesis\<close>, and the message text the engine gives the errors it throws itself.
\<close>

record browser =
  has_SpeechRecognition :: bool
  has_speechSynthesis :: bool
  engine_message :: "exn \<Rightarrow> string"

definition initial :: controller where
  "initial =
     \<lparr>messages = [], isListening = False, isProcessing = False, isSearching = False,
      error = [], isSpeaking = False, recognitionRef = None,
      synth_speaking = False, recognitions = 0, log = []\<rparr>"

definition emit :: "event \<Rightarrow> controller \<Rightarrow> controller" where
  "emit e s = s\<lparr>log := log s @ [e]\<rparr>"

definition setMessages_append :: "message \<Rightarrow> controller \<Rightarrow> controller" where
  "setMessages_append m s = emit (Append m) (s\<lparr>messages := messages s @ [m]\<rparr>)"

definition setMessages_empty :: "controller \<Rightarrow> controller" where
  "setMessages_empty s = emit ClearMessages (s\<lparr>messages := []\<rparr>)"

definition setError :: "string \<Rightarrow> controller \<Rightarrow> controller" where
  "setError e s = emit (SetError e) (s\<lparr>error := e\<rparr>)"

definition setIsListening :: "bool \<Rightarrow> controller \<Rightarrow> controller" where
  "setIsListening v s = emit (SetIsListening v) (s\<lparr>isListening := v\<rparr>)"

definition setIsProcessing :: "bool \<Rightarrow> controller \<Rightarrow> controller" where
  "setIsProcessing v s = emit (SetIsProcessing v) (s\<lparr>isProcessing := v\<rparr>)"

definition setIsSearching :: "bool \<Rightarrow> controller \<Rightarrow> controller" where
  "setIsSearching v s = emit (SetIsSearching v) (s\<lparr>isSearching := v\<rparr>)"

definition setIsSpeaking :: "bool \<Rightarrow> controller \<Rightarrow> controller" where
  "setIsSpeaking v s = emit (SetIsSpeaking v) (s\<lparr>isSpeaking := v\<rparr>)"

text \<open>\<open>speechSynthesis.cancel()\<close>: the queue is emptied and nothing is being spoken.\<close>

definition synth_cancel :: "controller \<Rightarrow> controller" where
  "synth_cancel s = emit SynthCancel (s\<lparr>synth_speaking := False\<rparr>)"

definition startListening :: "browser \<Rightarrow> controller \<Rightarrow> controller" where
  "startListening b s =
     (let s1 = setError [] s in
      if \<not> has_SpeechRecognition b then
        setError ''Speech recognition not supported in this browser. Please use Chrome, Edge, or Safari.'' s1
      else
        let s2 = (if has_speechSynthesis b \<and> synth_speaking s1
                  then setIsSpeaking False (synth_cancel s1) else s1);
            recognition = recognitions s2;
            s3 = emit (RecognitionStart recognition) (s2\<lparr>recognitions := Suc recognition\<rparr>)
        in s3\<lparr>recognitionRef := Some recognition\<rparr>)"

definition stopListening :: "controller \<Rightarrow> controller" where
  "stopListening s =
     (case recognitionRef s of
        None \<Rightarrow> s
      | Some recognition \<Rightarrow> setIsListening False (emit (RecognitionStop recognition) s))"

text \<open>The handlers that \<open>startListening\<close> attaches to the recognition object.\<close>

definition recognition_onstart :: "controller \<Rightarrow> controller" where
  "recognition_onstart s = setError [] (setIsListening True s)"

definition recognition_onerror :: "string \<Rightarrow> controller \<Rightarrow> controller" where
  "recognition_onerror code s =
     setIsListening False
       (setError (''Speech recognition error: '' @ code @ ''. Please try again.'') s)"

definition recognition_onend :: "controller \<Rightarrow> controller" where
  "recognition_onend s = setIsListening False s"

text \<open>
  \<open>speakText\<close>. Constructing the utterance converts the text to a string, which can throw;
  the cancel before it has happened by then.
\<close>

definition speakText :: "browser \<Rightarrow> js \<Rightarrow> (unit, controller) eff" where
  "speakText b t =
     (if has_speechSynthesis b then
        io_bind (io_do synth_cancel) (\<lambda>_.
        io_bind (io_lift (js_toString t)) (\<lambda>utterance.
        io_do (emit (SynthSpeak utterance))))
      else io_do (setError ''Text-to-speech not supported in this browser.''))"

text \<open>
  The handlers that \<open>speakText\<close> attaches to the utterance. The platform raises
  \<open>speaking\<close> when the utterance begins and lowers it when the utterance ends or fails.
\<close>

definition utterance_onstart :: "controller \<Rightarrow> controller" where
  "utterance_onstart s = setIsSpeaking True (s\<lparr>synth_speaking := True\<rparr>)"

definition utterance_onend :: "controller \<Rightarrow> controller" where
  "utterance_onend s = setIsSpeaking False (s\<lparr>synth_speaking := False\<rparr>)"

definition utterance_onerror :: "controller \<Rightarrow> controller" where
  "utterance_onerror s =
     setError ''Text-to-speech failed. Please try again.''
       (setIsSpeaking False (s\<lparr>synth_speaking := False\<rparr>))"

definition stopSpeaking :: "browser \<Rightarrow> controller \<Rightarrow> controller" where
  "stopSpeaking b s = (if has_speechSynthesis b then setIsSpeaking False (synth_cancel s) else s)"

definition clearChat :: "browser \<Rightarrow> controller \<Rightarrow> controller" where
  "clearChat b s = stopSpeaking b (setError [] (setMessages_empty s))"

text \<open>\<open>err.message\<close>: the text given to \<open>new Error\<close>, or the engine's text for its own errors.\<close>

definition err_message :: "browser \<Rightarrow> exn \<Rightarrow> string" where
  "err_message b e = (case e of Error m \<Rightarrow> m | _ \<Rightarrow> engine_message b e)"

text \<open>
  \<open>sendMessage\<close> up to its first \<open>await\<close>: the two flags are raised and the request to
  \<open>/api/voice-chat\<close> leaves.
\<close>

definition sendMessage_request :: "string \<Rightarrow> controller \<Rightarrow> controller" where
  "sendMessage_request userMessage s =
     emit (FetchVoiceChat userMessage) (setIsSearching True (setIsProcessing True s))"

text \<open>
  \<open>sendMessage\<close> from the moment the request settles, with its outcome and the clock
  reading for the new message's timestamp: the rest of the \<open>try\<close> block, its \<open>catch\<close> and
  its \<open>finally\<close>.
\<close>

definition sendMessage_try :: "browser \<Rightarrow> nat \<Rightarrow> exn + response \<Rightarrow> (unit, controller) eff" where
  "sendMessage_try b now outcome =
     io_bind (io_lift outcome) (\<lambda>res.
     io_bind (io_do (setIsSearching False)) (\<lambda>_.
       if \<not> response_ok res then
         io_bind (io_lift (get_prop (case body_json (resp_body res) of Inl e \<Rightarrow> JObj [] | Inr v \<Rightarrow> v)
                            (Name ''error''))) (\<lambda>errorField.
         io_bind (io_lift (if truthy errorField then js_toString errorField
                           else Inr (''HTTP '' @ show_nat (status res) @ '': Failed to process the message'')))
           (\<lambda>text. io_lift (Inl (Error text))))
       else
         io_bind (io_lift (body_json (resp_body res))) (\<lambda>data.
         io_bind (io_lift (get_prop data (Name ''error''))) (\<lambda>errorField.
           if truthy errorField then
             io_bind (io_lift (js_toString errorField)) (\<lambda>text. io_lift (Inl (Error text)))
           else
             let reply = or_else
                   (get_opt (get_opt (get_opt (get_opt data (Name ''choices'')) (Index 0)) (Name ''message''))
                      (Name ''content''))
                   (JStr ''No reply received'')
             in io_bind (io_do (setMessages_append
                                  \<lparr>msg_role = Assistant, msg_text = reply, msg_timestamp = now\<rparr>)) (\<lambda>_.
                speakText b reply)))))"

definition sendMessage_response :: "browser \<Rightarrow> nat \<Rightarrow> exn + response \<Rightarrow> controller \<Rightarrow> controller" where
  "sendMessage_response b now outcome s =
     snd (io_finally
            (io_catch (sendMessage_try b now outcome)
               (\<lambda>err. io_bind
                  (io_do (setError (if err_message b err = [] then ''Error sending message. Please try again.''
                                    else err_message b err))) (\<lambda>_.
                  io_do (setIsSearching False))))
            (setIsProcessing False) s)"

text \<open>White space that \<open>trim\<close> removes, among the code units below 256.\<close>

definition is_space :: "char \<Rightarrow> bool" where
  "is_space c = ((of_char c :: nat) \<in> {9, 10, 11, 12, 13, 32, 160})"

definition trim :: "string \<Rightarrow> string" where
  "trim s = rev (dropWhile is_space (rev (dropWhile is_space s)))"

definition recognition_onresult :: "nat \<Rightarrow> string \<Rightarrow> controller \<Rightarrow> controller" where
  "recognition_onresult now transcript s =
     (if trim transcript \<noteq> [] then
        sendMessage_request transcript
          (setMessages_append \<lparr>msg_role = User, msg_text = JStr transcript, msg_timestamp = now\<rparr> s)
      else s)"

text \<open>
  The completion call as the controller sees it has succeeded when the endpoint answered
  with a success status and a JSON body, not \<open>null\<close>, whose \<open>error\<close> field is absent or falsy.
\<close>

definition completion_succeeded :: "exn + response \<Rightarrow> bool" where
  "completion_succeeded outcome =
     (case outcome of
        Inl e \<Rightarrow> False
      | Inr res \<Rightarrow>
          response_ok res \<and>
          (case body_json (resp_body res) of
             Inl e \<Rightarrow> False
           | Inr data \<Rightarrow> (case get_prop data (Name ''error'') of Inl e \<Rightarrow> False | Inr v \<Rightarrow> \<not> truthy v)))"

text \<open>The events a handler added to the log.\<close>

definition added :: "controller \<Rightarrow> controller \<Rightarrow> event list" where
  "added s s' = drop (length (log s)) (log s')"

fun is_append :: "event \<Rightarrow> bool" where
  "is_append (Append m) = True"
| "is_append e = False"

fun is_speak :: "event \<Rightarrow> bool" where
  "is_speak (SynthSpeak t) = True"
| "is_speak e = False"

definition example_browser :: browser where
  "example_browser =
     \<lparr>has_SpeechRecognition = True, has_speechSynthesis = True,
      engine_message = (\<lambda>e. ''Failed to fetch'')\<rparr>"

text \<open>
  A session: a first turn is captured, answered and spoken, and its playback has begun.
\<close>

definition first_reply_playing :: controller where
  "first_reply_playing =
     utterance_onstart
       (sendMessage_response example_browser 2 completion_reply
         (recognition_onend
           (recognition_onresult 1 ''what is photosynthesis''
             (recognition_onstart
               (startListening example_browser initial)))))"

text \<open>
  The session goes on: the user starts a second capture during playback, which cancels it;
  the second capture starts; then the cancelled utterance reports its error.
\<close>

definition second_capture :: controller where
  "second_capture =
     utterance_onerror
       (recognition_onstart
         (startListening example_browser first_reply_playing))"

text \<open>
  The platform finishes speaking: its \<open>speaking\<close> flag falls. The utterance's end event,
  which lowers the component's Speaking flag, is delivered later.
\<close>

definition playback_finishes :: "controller \<Rightarrow> controller" where
  "playback_finishes s = s\<lparr>synth_speaking := False\<rparr>"

section \<open>The classifier matches substrings\<close>

lemma startsWith_iff: "startsWith s k \<longleftrightarrow> (\<exists>ss. s = k @ ss)"
  by (induction s k rule: startsWith.induct) auto

lemma includes_iff: "includes_str s k \<longleftrightarrow> (\<exists>ps ss. s = ps @ k @ ss)"
proof (induction s)
  case Nil
  then show ?case by auto
next
  case (Cons c cs)
  show ?case
  proof
    assume "includes_str (c # cs) k"
    then consider "startsWith (c # cs) k" | "includes_str cs k" by auto
    then show "\<exists>ps ss. c # cs = ps @ k @ ss"
    proof cases
      case 1
      then obtain ss where "c # cs = k @ ss" by (auto simp: startsWith_iff)
      then have "c # cs = [] @ k @ ss" by simp
      then show ?thesis by blast
    next
      case 2
      with Cons obtain ps ss where "cs = ps @ k @ ss" by auto
      then have "c # cs = (c # ps) @ k @ ss" by simp
      then show ?thesis by blast
    qed
  next
    assume "\<exists>ps ss. c # cs = ps @ k @ ss"
    then obtain ps ss where eq: "c # cs = ps @ k @ ss" by blast
    show "includes_str (c # cs) k"
    proof (cases ps)
      case Nil
      with eq have "startsWith (c # cs) k" by (auto simp: startsWith_iff)
      then show ?thesis by simp
    next
      case (Cons p ps')
      with eq have "cs = ps' @ k @ ss" by simp
      with Cons.IH have "includes_str cs k" by blast
      then show ?thesis by simp
    qed
  qed
qed

text \<open>
  C1. The classifier answers true exactly when the lower-cased utterance contains one of
  the thirteen marker phrases as a contiguous substring.
\<close>

theorem needsSearch_iff_marker:
  "needsSearch (JStr U) =
     Inr (\<exists>k \<in> {''what is'', ''who is'', ''when did'', ''where is'', ''how does'',
                  ''tell me about'', ''information about'', ''explain'', ''define'',
                  ''describe'', ''history of'', ''facts about'', ''details about''}.
            \<exists>ps ss. toLowerCase U = ps @ k @ ss)"
  unfolding needsSearch.simps list_ex_iff includes_iff searchKeywords_def
  by (simp only: list.set)

section \<open>Facts about the completion endpoint\<close>

lemmas io_defs = io_return_def io_lift_def io_bind_def io_catch_def io_fetch_def

lemma NextResponse_json_fixed:
  "NextResponse_json v 400 = Inr \<lparr>status = 400, resp_body = Json (reparse v)\<rparr>"
  "NextResponse_json v 500 = Inr \<lparr>status = 500, resp_body = Json (reparse v)\<rparr>"
  "NextResponse_json v 200 = Inr \<lparr>status = 200, resp_body = Json (reparse v)\<rparr>"
  by (simp_all add: NextResponse_json_def)

lemma searchWikipedia_returns:
  "\<exists>v. searchWikipedia env q tr = (Inr v, tr @ [searchWikipedia_request env q])"
  by (auto simp: searchWikipedia_def io_defs split: sum.splits prod.splits)

lemma searchWikipedia_trace:
  "searchWikipedia env q tr = (fst (searchWikipedia env q []), tr @ [searchWikipedia_request env q])"
  by (auto simp: searchWikipedia_def io_defs split: sum.splits prod.splits)

lemma search_url_not_completion: "req_url (searchWikipedia_request env q) \<noteq> completion_url"
proof
  assume a: "req_url (searchWikipedia_request env q) = completion_url"
  have "last (req_url (searchWikipedia_request env q)) = CHR ''a''"
    by (simp add: searchWikipedia_request_def)
  moreover have "last completion_url = CHR ''s''"
    by (simp add: completion_url_def)
  ultimately show False using a by simp
qed

lemma buildSystemPrompt_calls:
  "buildSystemPrompt env message tr = (r, calls) \<Longrightarrow>
     calls = tr \<or> calls = tr @ [searchWikipedia_request env message]"
  using searchWikipedia_returns[of env message tr]
  by (auto simp: buildSystemPrompt_def io_defs split: sum.splits prod.splits if_splits)

lemma POST_voice_chat_returns: "\<exists>res. fst (POST_voice_chat env req) = Inr res"
  by (auto simp: POST_voice_chat_def io_catch_def io_lift_def NextResponse_json_fixed split: sum.splits prod.splits)

lemma POST_search_returns: "\<exists>res. fst (POST_search env req) = Inr res"
  by (auto simp: POST_search_def io_catch_def io_lift_def NextResponse_json_fixed split: sum.splits prod.splits)

lemma voice_chat_body_unparsed:
  "body_json req = Inl e \<Longrightarrow> voice_chat_body env req [] = (Inl e, [])"
  by (simp add: voice_chat_body_def io_defs)

lemma voice_chat_body_null:
  "body_json req = Inr parsed \<Longrightarrow> get_prop parsed (Name ''message'') = Inl e \<Longrightarrow>
   voice_chat_body env req [] = (Inl e, [])"
  by (simp add: voice_chat_body_def io_defs)

lemma voice_chat_body_missing:
  "body_json req = Inr parsed \<Longrightarrow> get_prop parsed (Name ''message'') = Inr message \<Longrightarrow>
   \<not> truthy message \<Longrightarrow>
   voice_chat_body env req [] =
     (Inr \<lparr>status = 400, resp_body = Json (JObj [(''error'', JStr ''Message missing'')])\<rparr>, [])"
  by (simp add: voice_chat_body_def io_defs NextResponse_json_fixed)

lemma voice_chat_body_prompt_throws:
  "body_json req = Inr parsed \<Longrightarrow> get_prop parsed (Name ''message'') = Inr message \<Longrightarrow>
   truthy message \<Longrightarrow> buildSystemPrompt env message [] = (Inl e, calls0) \<Longrightarrow>
   voice_chat_body env req [] = (Inl e, calls0)"
  by (simp add: voice_chat_body_def io_defs)

lemma voice_chat_body_called:
  "body_json req = Inr parsed \<Longrightarrow> get_prop parsed (Name ''message'') = Inr message \<Longrightarrow>
   truthy message \<Longrightarrow> buildSystemPrompt env message [] = (Inr systemPrompt, calls0) \<Longrightarrow>
   voice_chat_body env req [] =
     (bindE (fetch env (completion_request env (completionPayload systemPrompt message))) relay,
      calls0 @ [completion_request env (completionPayload systemPrompt message)])"
  by (simp add: voice_chat_body_def io_defs relay_def bindE_def split: sum.splits)

lemma POST_voice_chat_calls: "snd (POST_voice_chat env req) = snd (voice_chat_body env req [])"
  by (simp add: POST_voice_chat_def io_catch_def io_lift_def split: prod.splits sum.splits)

lemma POST_voice_chat_result:
  "fst (POST_voice_chat env req) =
     (case fst (voice_chat_body env req []) of
        Inl e \<Rightarrow> Inr \<lparr>status = 500, resp_body = Json (JObj [(''error'', JStr ''Server error'')])\<rparr>
      | Inr res \<Rightarrow> Inr res)"
  by (simp add: POST_voice_chat_def io_catch_def io_lift_def NextResponse_json_fixed split: prod.splits sum.splits)

text \<open>Every run either stops before the completion call or makes it last.\<close>

lemma voice_chat_body_cases:
  obtains (early) "snd (voice_chat_body env req []) = []"
  | (lookup_only) message where "snd (voice_chat_body env req []) = [searchWikipedia_request env message]"
  | (called) parsed message systemPrompt calls0 where
      "body_json req = Inr parsed" "get_prop parsed (Name ''message'') = Inr message"
      "truthy message" "buildSystemPrompt env message [] = (Inr systemPrompt, calls0)"
proof (cases "body_json req")
  case (Inl e)
  then show ?thesis using early by (simp add: voice_chat_body_unparsed)
next
  case parsed: (Inr parsed)
  show ?thesis
  proof (cases "get_prop parsed (Name ''message'')")
    case (Inl e)
    then show ?thesis using early parsed by (simp add: voice_chat_body_null)
  next
    case message: (Inr message)
    show ?thesis
    proof (cases "truthy message")
      case False
      then show ?thesis using early parsed message by (simp add: voice_chat_body_missing)
    next
      case True
      obtain r calls0 where b: "buildSystemPrompt env message [] = (r, calls0)"
        by (cases "buildSystemPrompt env message []")
      show ?thesis
      proof (cases r)
        case (Inl e)
        with b parsed message True have "voice_chat_body env req [] = (Inl e, calls0)"
          by (simp add: voice_chat_body_prompt_throws)
        moreover from b have "calls0 = [] \<or> calls0 = [searchWikipedia_request env message]"
          using buildSystemPrompt_calls [of env message "[]" r calls0] by simp
        ultimately show ?thesis using early lookup_only by auto
      next
        case (Inr systemPrompt)
        with b parsed message True show ?thesis using called by blast
      qed
    qed
  qed
qed

lemma buildSystemPrompt_result:
  assumes "buildSystemPrompt env message [] = (Inr systemPrompt, calls0)"
  shows "\<exists>m. message = JStr m \<and>
    ((\<exists>lookup title summary url.
        needsSearch (JStr m) = Inr True \<and> fst (searchWikipedia env (JStr m) []) = Inr lookup \<and>
        truthy lookup \<and>
        bindE (get_prop lookup (Name ''title'')) js_toString = Inr title \<and>
        bindE (get_prop lookup (Name ''summary'')) js_toString = Inr summary \<and>
        bindE (get_prop lookup (Name ''url'')) js_toString = Inr url \<and>
        systemPrompt = basePrompt @ wikipediaBlock title summary url)
     \<or> ((needsSearch (JStr m) = Inr False \<or>
          (needsSearch (JStr m) = Inr True \<and>
           (\<exists>lookup. fst (searchWikipedia env (JStr m) []) = Inr lookup \<and> \<not> truthy lookup))) \<and>
         systemPrompt = basePrompt))"
proof (cases message)
  case (JStr m)
  obtain v where v: "searchWikipedia env (JStr m) [] = (Inr v, [searchWikipedia_request env (JStr m)])"
    using searchWikipedia_returns [of env "JStr m" "[]"] by auto
  show ?thesis
  proof (cases "list_ex (\<lambda>keyword. includes_str (toLowerCase m) keyword) searchKeywords")
    case False
    with assms JStr show ?thesis by (simp add: buildSystemPrompt_def io_defs)
  next
    case needed: True
    show ?thesis
    proof (cases "truthy v")
      case False
      with assms JStr needed v show ?thesis by (simp add: buildSystemPrompt_def io_defs)
    next
      case True
      with assms JStr needed v have a: "augmentPrompt basePrompt v = Inr systemPrompt"
        by (simp add: buildSystemPrompt_def io_defs)
      then obtain title summary url where
        "bindE (get_prop v (Name ''title'')) js_toString = Inr title"
        "bindE (get_prop v (Name ''summary'')) js_toString = Inr summary"
        "bindE (get_prop v (Name ''url'')) js_toString = Inr url"
        "systemPrompt = basePrompt @ wikipediaBlock title summary url"
        by (auto simp: augmentPrompt_def bindE_def split: sum.splits)
      with JStr needed v True show ?thesis by auto
    qed
  qed
qed (use assms in \<open>simp_all add: buildSystemPrompt_def io_defs\<close>)

lemma hello_run:
  "POST_voice_chat (world search_hit summary_found (completion_unavailable ''overloaded'')) (message_body ''hello'') =
     (Inr \<lparr>status = 503, resp_body = Json (JObj [(''error'', JStr ''Failed to get AI response'')])\<rparr>,
      [completion_request (world search_hit summary_found (completion_unavailable ''overloaded''))
         (completionPayload basePrompt (JStr ''hello''))])"
  by code_simp

text \<open>
  C3, as the code has it. When the completion API answers the handler's call with a
  non-success status that a response can be built with (200..599, not 304) and a readable
  body, the handler returns, without throwing, a response with that status whose body is
  the fixed \<open>{error: "Failed to get AI response"}\<close>. The upstream body is only logged.
\<close>

theorem voice_chat_upstream_failure:
  assumes run: "POST_voice_chat env req = (res, calls)" and ne: "calls \<noteq> []"
    and url: "req_url (last calls) = completion_url"
    and up: "fetch env (last calls) = Inr r"
    and bad: "\<not> response_ok r" and readable: "resp_body r \<noteq> Unreadable"
    and lo: "200 \<le> status r" and hi: "status r \<le> 599" and nm: "status r \<noteq> 304"
  shows "res = Inr \<lparr>status = status r,
                    resp_body = Json (JObj [(''error'', JStr ''Failed to get AI response'')])\<rparr>"
proof -
  from run have calls: "calls = snd (voice_chat_body env req [])"
    using POST_voice_chat_calls [of env req] by simp
  from run have res: "res = fst (POST_voice_chat env req)" by simp
  show ?thesis
  proof (cases rule: voice_chat_body_cases [of env req])
    case early
    with calls ne show ?thesis by simp
  next
    case (lookup_only message)
    with calls url show ?thesis using search_url_not_completion [of env message] by simp
  next
    case (called parsed message systemPrompt calls0)
    let ?rq = "completion_request env (completionPayload systemPrompt message)"
    have body: "voice_chat_body env req [] = (bindE (fetch env ?rq) relay, calls0 @ [?rq])"
      using called by (rule voice_chat_body_called)
    with calls have "last calls = ?rq" by simp
    with up have "fetch env ?rq = Inr r" by simp
    with body have "fst (voice_chat_body env req []) = relay r" by (simp add: bindE_def)
    moreover have "relay r = Inr \<lparr>status = status r,
        resp_body = Json (JObj [(''error'', JStr ''Failed to get AI response'')])\<rparr>"
      using bad readable lo hi nm
      by (cases "resp_body r") (simp_all add: relay_def body_text_def NextResponse_json_def response_ok_def)
    ultimately show ?thesis using res by (simp add: POST_voice_chat_result)
  qed
qed

theorem voice_chat_upstream_failure_witness:
  "fst (POST_voice_chat (world search_hit summary_found (completion_unavailable ''overloaded''))
          (message_body ''hello'')) =
     Inr \<lparr>status = 503, resp_body = Json (JObj [(''error'', JStr ''Failed to get AI response'')])\<rparr>"
proof -
  let ?W = "world search_hit summary_found (completion_unavailable ''overloaded'')"
  let ?rq = "completion_request ?W (completionPayload basePrompt (JStr ''hello''))"
  let ?r = "\<lparr>status = 503, resp_body = Text ''overloaded''\<rparr>"
  have up: "fetch ?W ?rq = Inr ?r"
    by (simp add: world_def completion_request_def completion_url_def completion_unavailable_def)
  have "fst (POST_voice_chat ?W (message_body ''hello'')) =
      Inr \<lparr>status = status ?r, resp_body = Json (JObj [(''error'', JStr ''Failed to get AI response'')])\<rparr>"
    using voice_chat_upstream_failure [of ?W "message_body ''hello''" _ "[?rq]" ?r] hello_run up
    by (simp add: completion_request_def response_ok_def)
  then show ?thesis by simp
qed

text \<open>
  C3, as stated, fails: on a 503 whose body is \<open>overloaded\<close> the response body holds
  neither the status nor that text, and it is the same for another upstream body.
\<close>

theorem voice_chat_upstream_failure_counterexample:
  "fst (POST_voice_chat (world search_hit summary_found (completion_unavailable ''overloaded'')) (message_body ''hello'')) =
     Inr \<lparr>status = 503, resp_body = Json (JObj [(''error'', JStr ''Failed to get AI response'')])\<rparr>
   \<and> fst (POST_voice_chat (world search_hit summary_found (completion_unavailable ''rate limited'')) (message_body ''hello'')) =
     Inr \<lparr>status = 503, resp_body = Json (JObj [(''error'', JStr ''Failed to get AI response'')])\<rparr>"
  by code_simp

lemma photosynthesis_run:
  "snd (POST_voice_chat (deployed (world search_hit summary_found completion_reply))
          (message_body ''What is photosynthesis?'')) \<noteq> []
   \<and> req_url (last (snd (POST_voice_chat (deployed (world search_hit summary_found completion_reply))
          (message_body ''What is photosynthesis?'')))) = completion_url
   \<and> needsSearch (JStr ''What is photosynthesis?'') = Inr True
   \<and> fst (searchWikipedia (deployed (world search_hit summary_found completion_reply))
          (JStr ''What is photosynthesis?'') []) =
       Inr (JObj [(''title'', JStr ''Photosynthesis''),
                  (''summary'', JStr ''Photosynthesis converts light into chemical energy.''),
                  (''url'', JStr ''https://en.wikipedia.org/wiki/Photosynthesis'')])"
  by code_simp

text \<open>
  C6. Every call the handler makes to the completion API carries a payload with exactly two
  messages: one system message, then one user message whose text is the utterance as
  received. The system text is the fixed base persona; when the classifier asked for a
  lookup and the lookup gave a result, it is the base persona followed by the block
  \<open>Here is relevant information from Wikipedia\<close> with the result's title, summary and
  source and the instruction to use it and to mention that it comes from Wikipedia.
\<close>

theorem completion_payload_shape:
  assumes run: "POST_voice_chat env req = (res, calls)"
    and mem: "rq \<in> set calls" and url: "req_url rq = completion_url"
  shows "\<exists>parsed m systemPrompt.
     body_json req = Inr parsed \<and> get_prop parsed (Name ''message'') = Inr (JStr m) \<and>
     req_body rq =
       Some (JObj [(''model'', JStr ''anthropic/claude-sonnet-4''),
                   (''messages'',
                    JArr [JObj [(''role'', JStr ''system''),
                                (''content'', JArr [JObj [(''type'', JStr ''text''), (''text'', JStr systemPrompt)]])],
                          JObj [(''role'', JStr ''user''),
                                (''content'', JArr [JObj [(''type'', JStr ''text''), (''text'', JStr m)]])]])]) \<and>
     ((\<exists>lookup title summary url.
        needsSearch (JStr m) = Inr True \<and> fst (searchWikipedia env (JStr m) []) = Inr lookup \<and>
        truthy lookup \<and>
        bindE (get_prop lookup (Name ''title'')) js_toString = Inr title \<and>
        bindE (get_prop lookup (Name ''summary'')) js_toString = Inr summary \<and>
        bindE (get_prop lookup (Name ''url'')) js_toString = Inr url \<and>
        systemPrompt =
          ''You are a helpful AI assistant. Answer the user's question clearly and concisely.'' @
          ''\<newline>\<newline>Here is relevant information from Wikipedia:\<newline>Title: '' @ title @
          ''\<newline>Summary: '' @ summary @
          ''\<newline>Source: '' @ url @
          ''\<newline>\<newline>Use this information to help answer the user's question. Be sure to mention that the information comes from Wikipedia when relevant.'')
      \<or> ((needsSearch (JStr m) = Inr False \<or>
           (needsSearch (JStr m) = Inr True \<and>
            (\<exists>lookup. fst (searchWikipedia env (JStr m) []) = Inr lookup \<and> \<not> truthy lookup))) \<and>
          systemPrompt =
            ''You are a helpful AI assistant. Answer the user's question clearly and concisely.''))"
proof -
  from run have calls: "calls = snd (voice_chat_body env req [])"
    using POST_voice_chat_calls [of env req] by simp
  show ?thesis
  proof (cases rule: voice_chat_body_cases [of env req])
    case early
    with calls mem show ?thesis by simp
  next
    case (lookup_only message)
    with calls mem url show ?thesis using search_url_not_completion [of env message] by simp
  next
    case (called parsed message systemPrompt calls0)
    let ?rq = "completion_request env (completionPayload systemPrompt message)"
    have "voice_chat_body env req [] = (bindE (fetch env ?rq) relay, calls0 @ [?rq])"
      using called by (rule voice_chat_body_called)
    with calls have c: "calls = calls0 @ [?rq]" by simp
    have "calls0 = [] \<or> calls0 = [searchWikipedia_request env message]"
      using buildSystemPrompt_calls [OF called(4)] by simp
    with c mem url have rq: "rq = ?rq"
      using search_url_not_completion [of env message] by auto
    from buildSystemPrompt_result [OF called(4)] obtain m where m: "message = JStr m" by blast
    have body: "req_body rq = Some (completionPayload systemPrompt (JStr m))"
      using rq m by (simp add: completion_request_def)
    have prompt: "(\<exists>lookup title summary url.
        needsSearch (JStr m) = Inr True \<and> fst (searchWikipedia env (JStr m) []) = Inr lookup \<and>
        truthy lookup \<and>
        bindE (get_prop lookup (Name ''title'')) js_toString = Inr title \<and>
        bindE (get_prop lookup (Name ''summary'')) js_toString = Inr summary \<and>
        bindE (get_prop lookup (Name ''url'')) js_toString = Inr url \<and>
        systemPrompt = basePrompt @ wikipediaBlock title summary url)
     \<or> ((needsSearch (JStr m) = Inr False \<or>
          (needsSearch (JStr m) = Inr True \<and>
           (\<exists>lookup. fst (searchWikipedia env (JStr m) []) = Inr lookup \<and> \<not> truthy lookup))) \<and>
         systemPrompt = basePrompt)"
      using buildSystemPrompt_result [OF called(4)] m by blast
    show ?thesis
      using called(1) called(2) body prompt m
      unfolding completionPayload_def textContent_def basePrompt_def wikipediaBlock_def
      by blast
  qed
qed

theorem completion_payload_shape_witness:
  "req_body (last (snd (POST_voice_chat (deployed (world search_hit summary_found completion_reply))
          (message_body ''What is photosynthesis?'')))) =
     Some (JObj [(''model'', JStr ''anthropic/claude-sonnet-4''),
                 (''messages'',
                  JArr [JObj [(''role'', JStr ''system''),
                              (''content'',
                               JArr [JObj [(''type'', JStr ''text''),
                                           (''text'', JStr
          (''You are a helpful AI assistant. Answer the user's question clearly and concisely.'' @
          ''\<newline>\<newline>Here is relevant information from Wikipedia:\<newline>Title: '' @ ''Photosynthesis'' @
          ''\<newline>Summary: '' @ ''Photosynthesis converts light into chemical energy.'' @
          ''\<newline>Source: '' @ ''https://en.wikipedia.org/wiki/Photosynthesis'' @
          ''\<newline>\<newline>Use this information to help answer the user's question. Be sure to mention that the information comes from Wikipedia when relevant.''))]])],
                        JObj [(''role'', JStr ''user''),
                              (''content'',
                               JArr [JObj [(''type'', JStr ''text''),
                                           (''text'', JStr ''What is photosynthesis?'')]])]])])"
proof -
  let ?W = "deployed (world search_hit summary_found completion_reply)"
  let ?req = "message_body ''What is photosynthesis?''"
  let ?calls = "snd (POST_voice_chat ?W ?req)"
  let ?L = "JObj [(''title'', JStr ''Photosynthesis''),
                  (''summary'', JStr ''Photosynthesis converts light into chemical energy.''),
                  (''url'', JStr ''https://en.wikipedia.org/wiki/Photosynthesis'')]"
  have run: "POST_voice_chat ?W ?req = (fst (POST_voice_chat ?W ?req), ?calls)" by simp
  have mem: "last ?calls \<in> set ?calls" using photosynthesis_run by simp
  have url: "req_url (last ?calls) = completion_url" using photosynthesis_run by simp
  have needed: "needsSearch (JStr ''What is photosynthesis?'') = Inr True"
    using photosynthesis_run by simp
  have lookup: "fst (searchWikipedia ?W (JStr ''What is photosynthesis?'') []) = Inr ?L"
    using photosynthesis_run by simp
  from completion_payload_shape [OF run mem url] obtain parsed m systemPrompt where
    p: "body_json ?req = Inr parsed" and g: "get_prop parsed (Name ''message'') = Inr (JStr m)"
    and b: "req_body (last ?calls) =
       Some (JObj [(''model'', JStr ''anthropic/claude-sonnet-4''),
                   (''messages'',
                    JArr [JObj [(''role'', JStr ''system''),
                                (''content'', JArr [JObj [(''type'', JStr ''text''), (''text'', JStr systemPrompt)]])],
                          JObj [(''role'', JStr ''user''),
                                (''content'', JArr [JObj [(''type'', JStr ''text''), (''text'', JStr m)]])]])])"
    and d: "(\<exists>lookup title summary url.
        needsSearch (JStr m) = Inr True \<and> fst (searchWikipedia ?W (JStr m) []) = Inr lookup \<and>
        truthy lookup \<and>
        bindE (get_prop lookup (Name ''title'')) js_toString = Inr title \<and>
        bindE (get_prop lookup (Name ''summary'')) js_toString = Inr summary \<and>
        bindE (get_prop lookup (Name ''url'')) js_toString = Inr url \<and>
        systemPrompt =
          ''You are a helpful AI assistant. Answer the user's question clearly and concisely.'' @
          ''\<newline>\<newline>Here is relevant information from Wikipedia:\<newline>Title: '' @ title @
          ''\<newline>Summary: '' @ summary @
          ''\<newline>Source: '' @ url @
          ''\<newline>\<newline>Use this information to help answer the user's question. Be sure to mention that the information comes from Wikipedia when relevant.'')
      \<or> ((needsSearch (JStr m) = Inr False \<or>
           (needsSearch (JStr m) = Inr True \<and>
            (\<exists>lookup. fst (searchWikipedia ?W (JStr m) []) = Inr lookup \<and> \<not> truthy lookup))) \<and>
          systemPrompt =
            ''You are a helpful AI assistant. Answer the user's question clearly and concisely.'')"
    by blast
  from p g have m: "m = ''What is photosynthesis?''"
    by (auto simp: message_body_def body_json_def)
  from d needed lookup obtain title summary url where
    t: "bindE (get_prop ?L (Name ''title'')) js_toString = Inr title"
    and s: "bindE (get_prop ?L (Name ''summary'')) js_toString = Inr summary"
    and u: "bindE (get_prop ?L (Name ''url'')) js_toString = Inr url"
    and sp: "systemPrompt =
          ''You are a helpful AI assistant. Answer the user's question clearly and concisely.'' @
          ''\<newline>\<newline>Here is relevant information from Wikipedia:\<newline>Title: '' @ title @
          ''\<newline>Summary: '' @ summary @
          ''\<newline>Source: '' @ url @
          ''\<newline>\<newline>Use this information to help answer the user's question. Be sure to mention that the information comes from Wikipedia when relevant.''"
    unfolding m by auto
  from t have "title = ''Photosynthesis''" by (simp add: bindE_def)
  moreover from s have "summary = ''Photosynthesis converts light into chemical energy.''"
    by (simp add: bindE_def)
  moreover from u have "url = ''https://en.wikipedia.org/wiki/Photosynthesis''"
    by (simp add: bindE_def)
  ultimately show ?thesis using b sp m by simp
qed

text \<open>
  C8, as the code has it. A body that parses to a JSON value with no \<open>message\<close> property
  (an object without the field, or a number, string, boolean or array) is answered with 400
  and \<open>{error: "Message missing"}\<close>. A body that cannot be read as JSON, or that is
  \<open>null\<close>, makes the handler throw inside its \<open>try\<close> and is answered with 500 and
  \<open>{error: "Server error"}\<close>. No outgoing call is made in either case.
\<close>

theorem voice_chat_message_absent:
  "(get_prop parsed (Name ''message'') = Inr JUndefined \<longrightarrow>
      POST_voice_chat env (Json parsed) =
        (Inr \<lparr>status = 400, resp_body = Json (JObj [(''error'', JStr ''Message missing'')])\<rparr>, []))
   \<and> (body_json req = Inl e \<or> req = Json JNull \<longrightarrow>
      POST_voice_chat env' req =
        (Inr \<lparr>status = 500, resp_body = Json (JObj [(''error'', JStr ''Server error'')])\<rparr>, []))"
  by (auto simp: POST_voice_chat_def voice_chat_body_def io_defs body_json_def NextResponse_json_fixed)

theorem voice_chat_message_absent_witness:
  "POST_voice_chat (world search_hit summary_found completion_reply) (Json (JObj [])) =
     (Inr \<lparr>status = 400, resp_body = Json (JObj [(''error'', JStr ''Message missing'')])\<rparr>, [])
   \<and> POST_voice_chat (world search_hit summary_found completion_reply) (Json JNull) =
     (Inr \<lparr>status = 500, resp_body = Json (JObj [(''error'', JStr ''Server error'')])\<rparr>, [])"
proof -
  have "get_prop (JObj []) (Name ''message'') = Inr JUndefined" by simp
  then show ?thesis
    using voice_chat_message_absent [of "JObj []" "world search_hit summary_found completion_reply"
        "Json JNull" _ "world search_hit summary_found completion_reply"]
    by blast
qed

text \<open>
  C8, as stated, fails for a request whose body is empty: it has no \<open>message\<close> field, reading
  it as JSON throws, and the handler's \<open>catch\<close> answers 500.
\<close>

theorem voice_chat_empty_body_counterexample:
  "POST_voice_chat (world search_hit summary_found completion_reply) (Text '''') =
     (Inr \<lparr>status = 500, resp_body = Json (JObj [(''error'', JStr ''Server error'')])\<rparr>, [])"
  by (simp add: POST_voice_chat_def voice_chat_body_def io_defs body_json_def NextResponse_json_fixed)

text \<open>
  C10. An empty string in the required field is treated as a missing field by both
  endpoints: 400 with \<open>Message missing\<close>, respectively \<open>Query missing\<close>, and no outgoing call.
\<close>

theorem empty_string_field_is_missing:
  "POST_voice_chat env (Json (JObj [(''message'', JStr '''')])) =
     (Inr \<lparr>status = 400, resp_body = Json (JObj [(''error'', JStr ''Message missing'')])\<rparr>, [])
   \<and> POST_search env' (Json (JObj [(''query'', JStr '''')])) =
     (Inr \<lparr>status = 400, resp_body = Json (JObj [(''error'', JStr ''Query missing'')])\<rparr>, [])"
  by (simp add: POST_voice_chat_def voice_chat_body_def POST_search_def search_body_def io_defs
       body_json_def NextResponse_json_fixed)

section \<open>Facts about the lookup\<close>

lemma io_bind_lift:
  "io_bind (io_lift m) f tr = (case m of Inl e \<Rightarrow> (Inl e, tr) | Inr v \<Rightarrow> f v tr)"
  by (simp add: io_bind_def io_lift_def split: sum.splits)

lemma io_lift_apply: "io_lift m tr = (m, tr)"
  by (simp add: io_lift_def)

lemma io_bind_fetch:
  "io_bind (io_fetch env rq) f tr =
     (case fetch env rq of Inl e \<Rightarrow> (Inl e, tr @ [rq]) | Inr r \<Rightarrow> f r (tr @ [rq]))"
  by (simp add: io_bind_def io_fetch_def split: sum.splits)

lemma searchWikipedia_value:
  "fst (searchWikipedia env q tr) =
     Inr (case fetch env (searchWikipedia_request env q) of
            Inl e \<Rightarrow> JNull
          | Inr r \<Rightarrow>
              (case body_json (resp_body r) of
                 Inl e \<Rightarrow> JNull
               | Inr data \<Rightarrow> or_else (get_opt (get_opt data (Name ''results'')) (Index 0)) JNull))"
  apply (simp add: searchWikipedia_def io_catch_def io_bind_fetch io_bind_lift io_return_def split: sum.splits)
  apply (auto simp: get_opt_def or_else_def io_return_def split: sum.splits)
  done

lemma POST_search_result:
  "fst (POST_search env req) =
     (case fst (search_body env req []) of
        Inl e \<Rightarrow> Inr \<lparr>status = 500, resp_body = Json (JObj [(''error'', JStr ''Search error'')])\<rparr>
      | Inr res \<Rightarrow> Inr res)"
  by (simp add: POST_search_def io_catch_def io_lift_def NextResponse_json_fixed split: prod.splits sum.splits)

lemma deployed_fetch_lookup:
  "fetch (deployed w) (searchWikipedia_request (deployed w) (JStr qs)) =
     fst (POST_search w (Json (JObj [(''query'', JStr qs)])))"
  by (simp add: deployed_def served_by_lookup_def searchWikipedia_request_def)

lemma deployed_lookup:
  "fst (searchWikipedia (deployed w) (JStr qs) tr) =
     Inr (entry_of (fst (POST_search w (Json (JObj [(''query'', JStr qs)])))))"
  using deployed_fetch_lookup [of w qs]
  by (simp add: searchWikipedia_value entry_of_def)

lemma POST_search_calls: "snd (POST_search env req) = snd (search_body env req [])"
  by (simp add: POST_search_def io_catch_def io_lift_def split: prod.splits sum.splits)

text \<open>When the lookup endpoint's \<open>try\<close> block does not throw, every call it made was answered with JSON.\<close>

lemma search_body_ok_calls:
  assumes "search_body env req [] = (Inr res, calls)"
  shows "\<forall>rq \<in> set calls. \<exists>r v. fetch env rq = Inr r \<and> resp_body r = Json v"
  using assms
  apply (simp add: search_body_def io_bind_lift io_bind_fetch io_lift_apply NextResponse_json_fixed
      split: sum.splits if_splits)
  apply (auto simp: body_json_def split: body.splits)
  done

lemma endpoint_call_fails:
  assumes "rq \<in> set (snd (POST_search env req))" and "call_fails env rq"
  shows "entry_of (fst (POST_search env req)) = JNull"
proof (cases "fst (search_body env req [])")
  case (Inl e)
  then show ?thesis
    by (simp add: POST_search_result entry_of_def body_json_def get_opt_def or_else_def)
next
  case (Inr res)
  then have "search_body env req [] = (Inr res, snd (search_body env req []))"
    by (simp add: prod_eq_iff)
  from search_body_ok_calls [OF this] assms show ?thesis
    by (auto simp: POST_search_calls call_fails_def body_json_def)
qed

lemma zero_hits:
  assumes "fetch env (get_request (searchUrl qs)) = Inr r" "resp_body r = Json searchData"
    and "get_prop searchData (Name ''query'') = Inr q"
    and "\<not> truthy (get_opt (get_opt q (Name ''search'')) (Name ''length''))"
    and "qs \<noteq> []"
  shows "POST_search env (Json (JObj [(''query'', JStr qs)])) =
     (Inr \<lparr>status = 200, resp_body = Json (JObj [(''results'', JArr [])])\<rparr>, [get_request (searchUrl qs)])"
  using assms
  by (simp add: POST_search_def io_catch_def search_body_def io_bind_lift io_lift_apply io_bind_fetch
        body_json_def NextResponse_json_fixed)

lemma proceeds_unaugmented:
  assumes "needsSearch (JStr m) = Inr True" "fst (searchWikipedia env (JStr m) []) = Inr JNull"
  shows "snd (POST_voice_chat env (message_body m)) =
     [searchWikipedia_request env (JStr m),
      completion_request env (completionPayload basePrompt (JStr m))]"
proof -
  have s: "searchWikipedia env (JStr m) [] = (Inr JNull, [searchWikipedia_request env (JStr m)])"
    using assms(2) searchWikipedia_trace [of env "JStr m" "[]"] by simp
  have ne: "m \<noteq> []" using assms(1) by (auto simp: searchKeywords_def toLowerCase_def)
  have b: "buildSystemPrompt env (JStr m) [] = (Inr basePrompt, [searchWikipedia_request env (JStr m)])"
    using assms(1) s by (simp add: buildSystemPrompt_def io_defs)
  have "voice_chat_body env (message_body m) [] =
      (bindE (fetch env (completion_request env (completionPayload basePrompt (JStr m)))) relay,
       [searchWikipedia_request env (JStr m)] @ [completion_request env (completionPayload basePrompt (JStr m))])"
  proof (rule voice_chat_body_called [OF _ _ _ b])
    show "body_json (message_body m) = Inr (JObj [(''message'', JStr m)])"
      by (simp add: message_body_def body_json_def)
    show "get_prop (JObj [(''message'', JStr m)]) (Name ''message'') = Inr (JStr m)" by simp
    show "truthy (JStr m)" using ne by simp
  qed
  then show ?thesis by (simp add: POST_voice_chat_calls)
qed

lemma zero_hits_lookup:
  assumes "fetch w (get_request (searchUrl qs)) = Inr r" "resp_body r = Json searchData"
    and "get_prop searchData (Name ''query'') = Inr q"
    and "get_opt q (Name ''search'') = JArr []"
  shows "fst (searchWikipedia (deployed w) (JStr qs) tr) = Inr JNull"
proof (cases "qs = []")
  case True
  then show ?thesis
    by (simp add: deployed_lookup POST_search_result search_body_def io_bind_lift io_lift_apply
          body_json_def NextResponse_json_fixed entry_of_def get_opt_def or_else_def)
next
  case False
  have "\<not> truthy (get_opt (get_opt q (Name ''search'')) (Name ''length''))"
    using assms(4) by (simp add: get_opt_def)
  from zero_hits [OF assms(1,2,3) this False] show ?thesis
    by (simp add: deployed_lookup entry_of_def body_json_def get_opt_def or_else_def)
qed

lemma internal_call_fails:
  "call_fails env (searchWikipedia_request env q) \<Longrightarrow> fst (searchWikipedia env q tr) = Inr JNull"
  by (auto simp: searchWikipedia_value call_fails_def split: sum.splits)

text \<open>
  Where the lookup does fail soft. It never raises: it always returns a value, having made
  its one call. It returns \<open>null\<close> when that call fails (rejects, or has a body that is not
  JSON); and, with the call served by the lookup endpoint, when any call that endpoint makes
  to Wikipedia fails, and when the search has zero hits. Whenever a lookup that the
  classifier asked for returns \<open>null\<close>, the handler goes on to the completion call with the
  base prompt alone.
\<close>

lemma lookup_fails_soft:
  "(\<exists>v. searchWikipedia env q tr = (Inr v, tr @ [searchWikipedia_request env q]))
   \<and> (call_fails env1 (searchWikipedia_request env1 q1) \<longrightarrow>
        fst (searchWikipedia env1 q1 tr1) = Inr JNull)
   \<and> ((\<exists>rq \<in> set (snd (POST_search w2 (Json (JObj [(''query'', JStr qs2)])))). call_fails w2 rq) \<longrightarrow>
        fst (searchWikipedia (deployed w2) (JStr qs2) tr2) = Inr JNull)
   \<and> (fetch w3 (get_request (searchUrl qs3)) = Inr r3 \<and> resp_body r3 = Json data3 \<and>
        get_prop data3 (Name ''query'') = Inr q3 \<and> get_opt q3 (Name ''search'') = JArr [] \<longrightarrow>
        fst (searchWikipedia (deployed w3) (JStr qs3) tr3) = Inr JNull)
   \<and> (needsSearch (JStr m) = Inr True \<and> fst (searchWikipedia env5 (JStr m) []) = Inr JNull \<longrightarrow>
        snd (POST_voice_chat env5 (message_body m)) =
          [searchWikipedia_request env5 (JStr m),
           completion_request env5 (completionPayload basePrompt (JStr m))])"
proof (intro conjI impI)
  show "\<exists>v. searchWikipedia env q tr = (Inr v, tr @ [searchWikipedia_request env q])"
    by (rule searchWikipedia_returns)
next
  assume "call_fails env1 (searchWikipedia_request env1 q1)"
  then show "fst (searchWikipedia env1 q1 tr1) = Inr JNull" by (rule internal_call_fails)
next
  assume "\<exists>rq \<in> set (snd (POST_search w2 (Json (JObj [(''query'', JStr qs2)])))). call_fails w2 rq"
  then show "fst (searchWikipedia (deployed w2) (JStr qs2) tr2) = Inr JNull"
    using endpoint_call_fails [of _ w2 "Json (JObj [(''query'', JStr qs2)])"]
    by (auto simp: deployed_lookup)
next
  assume "fetch w3 (get_request (searchUrl qs3)) = Inr r3 \<and> resp_body r3 = Json data3 \<and>
        get_prop data3 (Name ''query'') = Inr q3 \<and> get_opt q3 (Name ''search'') = JArr []"
  then show "fst (searchWikipedia (deployed w3) (JStr qs3) tr3) = Inr JNull"
    using zero_hits_lookup [of w3 qs3 r3 data3 q3 tr3] by blast
next
  assume "needsSearch (JStr m) = Inr True \<and> fst (searchWikipedia env5 (JStr m) []) = Inr JNull"
  then show "snd (POST_voice_chat env5 (message_body m)) =
          [searchWikipedia_request env5 (JStr m),
           completion_request env5 (completionPayload basePrompt (JStr m))]"
    using proceeds_unaugmented [of m env5] by blast
qed

lemma summary_call_rejected:
  "\<exists>rq \<in> set (snd (POST_search (world search_hit (Inl FetchFailed) completion_reply)
                        (Json (JObj [(''query'', JStr ''what is photosynthesis'')])))).
     call_fails (world search_hit (Inl FetchFailed) completion_reply) rq"
  by code_simp

lemma lookup_fails_soft_example:
  "fst (searchWikipedia (world search_hit summary_found (Inl FetchFailed)) (JStr ''what is photosynthesis'') []) = Inr JNull
   \<and> fst (searchWikipedia (deployed (world search_hit (Inl FetchFailed) completion_reply)) (JStr ''what is photosynthesis'') []) = Inr JNull
   \<and> fst (searchWikipedia (deployed (world search_empty summary_found completion_reply)) (JStr ''what is photosynthesis'') []) = Inr JNull
   \<and> snd (POST_voice_chat (deployed (world search_empty summary_found completion_reply)) (message_body ''what is photosynthesis'')) =
       [searchWikipedia_request (deployed (world search_empty summary_found completion_reply)) (JStr ''what is photosynthesis''),
        completion_request (deployed (world search_empty summary_found completion_reply))
          (completionPayload basePrompt (JStr ''what is photosynthesis''))]"
proof -
  let ?q = "''what is photosynthesis''"
  let ?w1 = "world search_hit summary_found (Inl FetchFailed)"
  let ?w2 = "world search_hit (Inl FetchFailed) completion_reply"
  let ?w3 = "world search_empty summary_found completion_reply"
  let ?r3 = "\<lparr>status = 200, resp_body = Json (JObj [(''query'', JObj [(''search'', JArr [])])])\<rparr>"
  have h1: "call_fails ?w1 (searchWikipedia_request ?w1 (JStr ?q))" by code_simp
  have h2: "\<exists>rq \<in> set (snd (POST_search ?w2 (Json (JObj [(''query'', JStr ?q)])))). call_fails ?w2 rq"
    by (rule summary_call_rejected)
  have h3: "fetch ?w3 (get_request (searchUrl ?q)) = Inr ?r3 \<and>
        resp_body ?r3 = Json (JObj [(''query'', JObj [(''search'', JArr [])])]) \<and>
        get_prop (JObj [(''query'', JObj [(''search'', JArr [])])]) (Name ''query'') = Inr (JObj [(''search'', JArr [])]) \<and>
        get_opt (JObj [(''search'', JArr [])]) (Name ''search'') = JArr []"
    by (simp add: world_def get_request_def searchUrl_def search_empty_def get_opt_def)
  have h5: "needsSearch (JStr ?q) = Inr True \<and> fst (searchWikipedia (deployed ?w3) (JStr ?q) []) = Inr JNull"
    by code_simp
  show ?thesis
    using lookup_fails_soft [where ?env1.0 = ?w1 and ?q1.0 = "JStr ?q" and ?tr1.0 = "[]"
        and ?w2.0 = ?w2 and ?qs2.0 = ?q and ?tr2.0 = "[]"
        and ?w3.0 = ?w3 and ?qs3.0 = ?q and ?r3.0 = ?r3 and ?tr3.0 = "[]"
        and ?data3.0 = "JObj [(''query'', JObj [(''search'', JArr [])])]"
        and ?q3.0 = "JObj [(''search'', JArr [])]"
        and ?env5.0 = "deployed ?w3" and ?m = ?q] h1 h2 h3 h5
    by blast
qed

text \<open>
  C5. A lookup that meets a non-success upstream status must yield nothing and leave the
  prompt unaugmented. The code does not: the lookup path never inspects a status. When the
  search has a hit and the summary API answers 404 with its JSON error body, the lookup
  returns an entry built from that body, and the completion call carries a prompt with
  \<open>Title: Not found.\<close> and \<open>Summary: undefined\<close>.
\<close>

theorem lookup_non_success_yields_entry:
  "fst (searchWikipedia (deployed (world search_hit summary_not_found completion_reply))
         (JStr ''What is photosynthesis?'') []) =
     Inr (JObj [(''title'', JStr ''Not found.''),
                (''url'', JStr ''https://en.wikipedia.org/wiki/Photosynthesis'')])
   \<and> req_body (last (snd (POST_voice_chat (deployed (world search_hit summary_not_found completion_reply))
         (message_body ''What is photosynthesis?'')))) =
     Some (JObj [(''model'', JStr ''anthropic/claude-sonnet-4''),
                 (''messages'',
                  JArr [JObj [(''role'', JStr ''system''),
                              (''content'',
                               JArr [JObj [(''type'', JStr ''text''),
                                           (''text'', JStr
          (''You are a helpful AI assistant. Answer the user's question clearly and concisely.'' @
          ''\<newline>\<newline>Here is relevant information from Wikipedia:\<newline>Title: Not found.'' @
          ''\<newline>Summary: undefined'' @
          ''\<newline>Source: https://en.wikipedia.org/wiki/Photosynthesis'' @
          ''\<newline>\<newline>Use this information to help answer the user's question. Be sure to mention that the information comes from Wikipedia when relevant.''))]])],
                        JObj [(''role'', JStr ''user''),
                              (''content'',
                               JArr [JObj [(''type'', JStr ''text''),
                                           (''text'', JStr ''What is photosynthesis?'')]])]])])"
  by code_simp

section \<open>Facts about the turn controller\<close>

lemmas setters = emit_def setMessages_append_def setMessages_empty_def setError_def
  setIsListening_def setIsProcessing_def setIsSearching_def setIsSpeaking_def synth_cancel_def

lemma speakText_cases:
  "speakText b t s =
     (if has_speechSynthesis b then
        (case js_toString t of
           Inl e \<Rightarrow> (Inl e, synth_cancel s)
         | Inr u \<Rightarrow> (Inr (), emit (SynthSpeak u) (synth_cancel s)))
      else (Inr (), setError ''Text-to-speech not supported in this browser.'' s))"
  by (simp add: speakText_def io_defs io_do_def split: sum.splits)

lemma sendMessage_try_success:
  assumes "outcome = Inr res" "response_ok res" "body_json (resp_body res) = Inr data"
    and "get_prop data (Name ''error'') = Inr v" "\<not> truthy v"
  shows "sendMessage_try b now outcome s =
     speakText b
       (or_else (get_opt (get_opt (get_opt (get_opt data (Name ''choices'')) (Index 0)) (Name ''message''))
                   (Name ''content'')) (JStr ''No reply received''))
       (setMessages_append
          \<lparr>msg_role = Assistant,
           msg_text = or_else (get_opt (get_opt (get_opt (get_opt data (Name ''choices'')) (Index 0)) (Name ''message''))
                   (Name ''content'')) (JStr ''No reply received''),
           msg_timestamp = now\<rparr>
          (setIsSearching False s))"
  using assms by (simp add: sendMessage_try_def io_defs io_do_def Let_def)

lemma sendMessage_try_failure:
  assumes "\<not> completion_succeeded outcome"
  shows "\<exists>e. sendMessage_try b now outcome s = (Inl e, s) \<or>
             sendMessage_try b now outcome s = (Inl e, setIsSearching False s)"
  using assms
  by (auto simp: sendMessage_try_def completion_succeeded_def io_defs io_do_def split: sum.splits)

lemma sendMessage_success:
  assumes "completion_succeeded outcome"
  shows "\<exists>m post. msg_role m = Assistant \<and> msg_timestamp m = now \<and>
         messages (sendMessage_response b now outcome s) = messages s @ [m] \<and>
         added s (sendMessage_response b now outcome s) = [SetIsSearching False, Append m] @ post \<and>
         \<not> list_ex is_append post \<and>
         isSpeaking (sendMessage_response b now outcome s) = isSpeaking s"
proof -
  from assms obtain res data v where o: "outcome = Inr res" "response_ok res"
    "body_json (resp_body res) = Inr data" "get_prop data (Name ''error'') = Inr v" "\<not> truthy v"
    by (auto simp: completion_succeeded_def split: sum.splits)
  let ?reply = "or_else (get_opt (get_opt (get_opt (get_opt data (Name ''choices'')) (Index 0)) (Name ''message''))
                   (Name ''content'')) (JStr ''No reply received'')"
  let ?m = "\<lparr>msg_role = Assistant, msg_text = ?reply, msg_timestamp = now\<rparr>"
  have t: "sendMessage_try b now outcome s =
      speakText b ?reply (setMessages_append ?m (setIsSearching False s))"
    using o by (rule sendMessage_try_success)
  have "\<exists>post. messages (sendMessage_response b now outcome s) = messages s @ [?m] \<and>
         added s (sendMessage_response b now outcome s) = [SetIsSearching False, Append ?m] @ post \<and>
         \<not> list_ex is_append post \<and>
         isSpeaking (sendMessage_response b now outcome s) = isSpeaking s"
    by (simp add: sendMessage_response_def io_defs io_do_def io_finally_def t speakText_cases
          setters added_def split: sum.splits)
  then show ?thesis by (intro exI [of _ ?m]) auto
qed

lemma sendMessage_failure:
  assumes "\<not> completion_succeeded outcome"
  shows "messages (sendMessage_response b now outcome s) = messages s \<and>
         \<not> list_ex is_append (added s (sendMessage_response b now outcome s))"
proof -
  from sendMessage_try_failure [OF assms, of b now s] obtain e where
    "sendMessage_try b now outcome s = (Inl e, s) \<or>
     sendMessage_try b now outcome s = (Inl e, setIsSearching False s)" by blast
  then show ?thesis
    by (auto simp: sendMessage_response_def io_defs io_do_def io_finally_def setters added_def)
qed

lemma playing: "isSpeaking first_reply_playing \<and> synth_speaking first_reply_playing
   \<and> recognitions first_reply_playing = 1 \<and> length (messages first_reply_playing) = 2"
  by code_simp

lemma just_ended:
  "isSpeaking (playback_finishes first_reply_playing)
   \<and> \<not> synth_speaking (playback_finishes first_reply_playing)
   \<and> recognitions (playback_finishes first_reply_playing) = 1"
  by code_simp

lemma second_capture_state:
  "isListening second_capture \<and> error second_capture = ''Text-to-speech failed. Please try again.''"
  by code_simp

text \<open>
  C2. When the completion succeeds, the rest of \<open>sendMessage\<close> appends exactly one message
  to the transcript, an assistant message, as its second observable step; every other step,
  the call to the synthesiser among them, comes after it, and the Speaking flag is not yet
  raised when it returns. When the completion fails, the transcript is unchanged and no
  message is appended.
\<close>

theorem assistant_turn_iff_success:
  "(completion_succeeded outcome \<longrightarrow>
      (\<exists>m post. msg_role m = Assistant \<and> msg_timestamp m = now \<and>
         messages (sendMessage_response b now outcome s) = messages s @ [m] \<and>
         added s (sendMessage_response b now outcome s) = [SetIsSearching False, Append m] @ post \<and>
         \<not> list_ex is_append post \<and>
         isSpeaking (sendMessage_response b now outcome s) = isSpeaking s))
   \<and> (\<not> completion_succeeded outcome' \<longrightarrow>
         messages (sendMessage_response b' now' outcome' s') = messages s' \<and>
         \<not> list_ex is_append (added s' (sendMessage_response b' now' outcome' s')))"
  using sendMessage_success [of outcome now b s] sendMessage_failure [of outcome' b' now' s']
  by blast

theorem assistant_turn_iff_success_witness:
  "(\<exists>m post. msg_role m = Assistant \<and> msg_timestamp m = 2 \<and>
       messages (sendMessage_response example_browser 2 answered initial) = messages initial @ [m] \<and>
       added initial (sendMessage_response example_browser 2 answered initial) =
         [SetIsSearching False, Append m] @ post \<and>
       \<not> list_ex is_append post \<and>
       isSpeaking (sendMessage_response example_browser 2 answered initial) = isSpeaking initial)
   \<and> messages (sendMessage_response example_browser 2 unavailable initial) = messages initial
   \<and> \<not> list_ex is_append (added initial (sendMessage_response example_browser 2 unavailable initial))"
proof -
  have ok: "completion_succeeded answered" by code_simp
  have bad: "\<not> completion_succeeded unavailable" by code_simp
  show ?thesis
    using assistant_turn_iff_success [of answered 2 example_browser initial
        unavailable example_browser 2 initial] ok bad
    by blast
qed

text \<open>
  C4, as the code has it. \<open>startListening\<close> has no guard. Called while Listening (the
  browser then has speech recognition), it leaves the transcript and the listening,
  processing and searching flags as they are, but it clears the error text, cancels the
  playback and lowers Speaking if the synthesiser is speaking, and starts a new recognition
  whose handle replaces the one held.
\<close>

theorem start_while_listening:
  assumes "isListening s" and "has_SpeechRecognition b"
  shows "messages (startListening b s) = messages s
       \<and> isListening (startListening b s) = isListening s
       \<and> isProcessing (startListening b s) = isProcessing s
       \<and> isSearching (startListening b s) = isSearching s
       \<and> error (startListening b s) = []
       \<and> isSpeaking (startListening b s) = (isSpeaking s \<and> \<not> (has_speechSynthesis b \<and> synth_speaking s))
       \<and> recognitionRef (startListening b s) = Some (recognitions s)
       \<and> last (log (startListening b s)) = RecognitionStart (recognitions s)
       \<and> synth_speaking (startListening b s) = (synth_speaking s \<and> \<not> has_speechSynthesis b)
       \<and> added s (startListening b s) =
           SetError [] #
           (if has_speechSynthesis b \<and> synth_speaking s then [SynthCancel, SetIsSpeaking False] else []) @
           [RecognitionStart (recognitions s)]"
  using assms by (auto simp: startListening_def Let_def setters added_def)

theorem start_while_listening_witness:
  "messages (startListening example_browser second_capture) = messages second_capture
       \<and> isListening (startListening example_browser second_capture) = isListening second_capture
       \<and> isProcessing (startListening example_browser second_capture) = isProcessing second_capture
       \<and> isSearching (startListening example_browser second_capture) = isSearching second_capture
       \<and> error (startListening example_browser second_capture) = []
       \<and> isSpeaking (startListening example_browser second_capture) =
           (isSpeaking second_capture \<and> \<not> (has_speechSynthesis example_browser \<and> synth_speaking second_capture))
       \<and> recognitionRef (startListening example_browser second_capture) = Some (recognitions second_capture)
       \<and> last (log (startListening example_browser second_capture)) = RecognitionStart (recognitions second_capture)
       \<and> synth_speaking (startListening example_browser second_capture) =
           (synth_speaking second_capture \<and> \<not> has_speechSynthesis example_browser)
       \<and> added second_capture (startListening example_browser second_capture) =
           SetError [] #
           (if has_speechSynthesis example_browser \<and> synth_speaking second_capture
            then [SynthCancel, SetIsSpeaking False] else []) @
           [RecognitionStart (recognitions second_capture)]"
proof -
  have "isListening second_capture" using second_capture_state by simp
  moreover have "has_SpeechRecognition example_browser" by (simp add: example_browser_def)
  ultimately show ?thesis by (rule start_while_listening)
qed

text \<open>
  C4, as stated, fails: in a session that reaches Listening with an error text showing, a
  second start changes the error text and starts a second recognition.
\<close>

theorem start_while_listening_counterexample:
  "isListening second_capture
   \<and> error second_capture = ''Text-to-speech failed. Please try again.''
   \<and> error (startListening example_browser second_capture) = []
   \<and> recognitionRef second_capture = Some 1
   \<and> recognitionRef (startListening example_browser second_capture) = Some 2"
  by code_simp

text \<open>
  C7, as the code has it. \<open>startListening\<close> tests the platform's \<open>speaking\<close> flag, not the
  component's Speaking flag. In a browser that has speech recognition the start is never
  rejected. When the synthesiser is speaking, it cancels the playback and lowers Speaking
  after clearing the error text, and only then starts the recognition, in that order. When
  the synthesiser is not speaking, it starts the recognition with no cancel and leaves the
  Speaking flag as it is.
\<close>

theorem start_while_speaking:
  assumes "has_SpeechRecognition b"
  shows "(has_speechSynthesis b \<and> synth_speaking s \<longrightarrow>
           added s (startListening b s) =
             [SetError [], SynthCancel, SetIsSpeaking False, RecognitionStart (recognitions s)]
           \<and> \<not> isSpeaking (startListening b s) \<and> \<not> synth_speaking (startListening b s)
           \<and> recognitionRef (startListening b s) = Some (recognitions s))
       \<and> (\<not> (has_speechSynthesis b \<and> synth_speaking s') \<longrightarrow>
           added s' (startListening b s') = [SetError [], RecognitionStart (recognitions s')]
           \<and> isSpeaking (startListening b s') = isSpeaking s'
           \<and> recognitionRef (startListening b s') = Some (recognitions s'))"
  using assms by (simp add: startListening_def Let_def setters added_def)

theorem start_while_speaking_witness:
  "added first_reply_playing (startListening example_browser first_reply_playing) =
       [SetError [], SynthCancel, SetIsSpeaking False, RecognitionStart (recognitions first_reply_playing)]
   \<and> \<not> isSpeaking (startListening example_browser first_reply_playing)
   \<and> \<not> synth_speaking (startListening example_browser first_reply_playing)
   \<and> recognitionRef (startListening example_browser first_reply_playing) = Some (recognitions first_reply_playing)
   \<and> added (playback_finishes first_reply_playing)
         (startListening example_browser (playback_finishes first_reply_playing)) =
       [SetError [], RecognitionStart (recognitions (playback_finishes first_reply_playing))]
   \<and> isSpeaking (startListening example_browser (playback_finishes first_reply_playing)) =
       isSpeaking (playback_finishes first_reply_playing)
   \<and> recognitionRef (startListening example_browser (playback_finishes first_reply_playing)) =
       Some (recognitions (playback_finishes first_reply_playing))"
proof -
  have r: "has_SpeechRecognition example_browser" by (simp add: example_browser_def)
  have y: "has_speechSynthesis example_browser \<and> synth_speaking first_reply_playing"
    using playing by (simp add: example_browser_def)
  have n: "\<not> (has_speechSynthesis example_browser \<and> synth_speaking (playback_finishes first_reply_playing))"
    using just_ended by simp
  show ?thesis
    using start_while_speaking [OF r, of first_reply_playing "playback_finishes first_reply_playing"] y n
    by blast
qed

text \<open>
  C7, as stated, fails when the Speaking flag is still set but the platform has finished
  speaking (the end event is not yet delivered): the start adds no cancel and the flag
  stays set.
\<close>

theorem start_while_speaking_counterexample:
  "isSpeaking (playback_finishes first_reply_playing)
   \<and> added (playback_finishes first_reply_playing)
         (startListening example_browser (playback_finishes first_reply_playing)) =
       [SetError [], RecognitionStart 1]
   \<and> isSpeaking (startListening example_browser (playback_finishes first_reply_playing))"
  by code_simp

text \<open>
  C9. After \<open>clearChat\<close> the transcript is empty; and where the browser has a synthesiser
  (without one there is no playback), the playback is cancelled and Speaking is false.
\<close>

theorem clear_empties_and_stops:
  "messages (clearChat b s) = []
   \<and> (has_speechSynthesis b \<longrightarrow>
        \<not> isSpeaking (clearChat b s) \<and> \<not> synth_speaking (clearChat b s) \<and>
        added s (clearChat b s) = [ClearMessages, SetError [], SynthCancel, SetIsSpeaking False])"
  by (simp add: clearChat_def stopSpeaking_def setters added_def)

theorem clear_empties_and_stops_witness:
  "messages (clearChat example_browser first_reply_playing) = []
   \<and> \<not> isSpeaking (clearChat example_browser first_reply_playing)
   \<and> \<not> synth_speaking (clearChat example_browser first_reply_playing)
   \<and> added first_reply_playing (clearChat example_browser first_reply_playing) =
        [ClearMessages, SetError [], SynthCancel, SetIsSpeaking False]"
proof -
  have "has_speechSynthesis example_browser" by (simp add: example_browser_def)
  then show ?thesis
    using clear_empties_and_stops [of example_browser first_reply_playing] by blast
qed

end
